theory Spec2Isabelle
  imports Main
begin

section \<open>Python values\<close>

text \<open>
  \<^verbatim>\<open>salt_check.py\<close> is dynamically typed: test declarations come out of YAML or JSON,
  results come back from execution modules of the minion.  The values are modelled by one
  datatype: \<open>None\<close>, booleans, unbounded integers, strings, lists and dictionaries, and
  \<open>PObj\<close> for an instance of any other class (in this program: the exception object that
  \<^verbatim>\<open>call_salt_command\<close> hands back as a value).  Such an object carries its identity, the
  name of its class, and the texts of \<^verbatim>\<open>str(obj)\<close> and \<^verbatim>\<open>repr(obj)\<close>; it behaves as a plain
  Python 3 object does: equal only to itself, true in a condition, neither iterable nor ordered.

  Dictionary keys are the hashable values.  Strings are lists of code points below 256.
  Floating-point numbers are outside the model.  The semantics is that of Python 3.
\<close>

datatype pykey = KNone | KBool bool | KInt int | KStr string | KObj nat string string string

datatype pyval =
    PNone
  | PBool bool
  | PInt int
  | PStr string
  | PList "pyval list"
  | PDict "(pykey \<times> pyval) list"
  | PObj nat string string string

datatype pytype = TNone | TBool | TInt | TStr | TList | TDict | TClass string

datatype error =
    TypeError
  | ValueError
  | AttributeError
  | KeyError
  | OtherError string

fun py_type :: "pyval \<Rightarrow> pytype" where
  "py_type PNone = TNone"
| "py_type (PBool b) = TBool"
| "py_type (PInt i) = TInt"
| "py_type (PStr s) = TStr"
| "py_type (PList xs) = TList"
| "py_type (PDict d) = TDict"
| "py_type (PObj i c s r) = TClass c"

fun val_of_key :: "pykey \<Rightarrow> pyval" where
  "val_of_key KNone = PNone"
| "val_of_key (KBool b) = PBool b"
| "val_of_key (KInt i) = PInt i"
| "val_of_key (KStr s) = PStr s"
| "val_of_key (KObj i c s r) = PObj i c s r"

text \<open>The hashable values: everything but a list or a dictionary.\<close>

fun key_of_val :: "pyval \<Rightarrow> pykey option" where
  "key_of_val PNone = Some KNone"
| "key_of_val (PBool b) = Some (KBool b)"
| "key_of_val (PInt i) = Some (KInt i)"
| "key_of_val (PStr s) = Some (KStr s)"
| "key_of_val (PObj i c s r) = Some (KObj i c s r)"
| "key_of_val _ = None"

subsection \<open>Truth value\<close>

fun py_truthy :: "pyval \<Rightarrow> bool" where
  "py_truthy PNone = False"
| "py_truthy (PBool b) = b"
| "py_truthy (PInt i) = (i \<noteq> 0)"
| "py_truthy (PStr s) = (s \<noteq> [])"
| "py_truthy (PList xs) = (xs \<noteq> [])"
| "py_truthy (PDict d) = (d \<noteq> [])"
| "py_truthy (PObj i c s r) = True"

subsection \<open>Equality\<close>

text \<open>
  \<^verbatim>\<open>==\<close>: a boolean is the integer 0 or 1; two dictionaries are equal when they have the
  same number of entries and every key of the first is a key of the second with an equal
  value; a key is found by \<^verbatim>\<open>==\<close> on keys.
\<close>

fun key_num :: "pykey \<Rightarrow> int option" where
  "key_num (KBool b) = Some (if b then 1 else 0)"
| "key_num (KInt i) = Some i"
| "key_num _ = None"

fun key_eq :: "pykey \<Rightarrow> pykey \<Rightarrow> bool" where
  "key_eq KNone b = (b = KNone)"
| "key_eq (KStr s) b = (b = KStr s)"
| "key_eq (KBool x) b = (key_num b = Some (if x then 1 else 0))"
| "key_eq (KInt i) b = (key_num b = Some i)"
| "key_eq (KObj i c s r) b = (case b of KObj j c' s' r' \<Rightarrow> i = j | _ \<Rightarrow> False)"

fun dict_get :: "(pykey \<times> 'v) list \<Rightarrow> pykey \<Rightarrow> 'v option" where
  "dict_get [] k = None"
| "dict_get ((k', v) # d) k = (if key_eq k' k then Some v else dict_get d k)"

fun py_num :: "pyval \<Rightarrow> int option" where
  "py_num (PBool b) = Some (if b then 1 else 0)"
| "py_num (PInt i) = Some i"
| "py_num _ = None"

fun py_eq :: "pyval \<Rightarrow> pyval \<Rightarrow> bool"
  and py_eq_list :: "pyval list \<Rightarrow> pyval list \<Rightarrow> bool"
  and py_eq_items :: "(pykey \<times> pyval) list \<Rightarrow> (pykey \<times> pyval) list \<Rightarrow> bool" where
  "py_eq PNone b = (b = PNone)"
| "py_eq (PBool x) b = (py_num b = Some (if x then 1 else 0))"
| "py_eq (PInt i) b = (py_num b = Some i)"
| "py_eq (PStr s) b = (b = PStr s)"
| "py_eq (PList xs) b = (case b of PList ys \<Rightarrow> py_eq_list xs ys | _ \<Rightarrow> False)"
| "py_eq (PDict d) b =
     (case b of PDict e \<Rightarrow> length d = length e \<and> py_eq_items d e | _ \<Rightarrow> False)"
| "py_eq (PObj i c s r) b = (case b of PObj j c' s' r' \<Rightarrow> i = j | _ \<Rightarrow> False)"
| "py_eq_list [] ys = (ys = [])"
| "py_eq_list (x # xs) ys =
     (case ys of [] \<Rightarrow> False | y # ys' \<Rightarrow> py_eq x y \<and> py_eq_list xs ys')"
| "py_eq_items [] e = True"
| "py_eq_items ((k, v) # d) e =
     (case dict_get e k of None \<Rightarrow> False | Some w \<Rightarrow> py_eq v w \<and> py_eq_items d e)"

text \<open>\<^verbatim>\<open>!=\<close> is the negation of \<^verbatim>\<open>==\<close> on every value of the model.\<close>

definition py_ne :: "pyval \<Rightarrow> pyval \<Rightarrow> bool" where
  "py_ne a b = (\<not> py_eq a b)"

text \<open>
  A dictionary of Python never holds two equal keys.  The datatype cannot say so; this
  predicate does, for a value and everything nested in it.
\<close>

fun distinct_keys :: "(pykey \<times> 'v) list \<Rightarrow> bool" where
  "distinct_keys [] = True"
| "distinct_keys ((k, v) # d) = (dict_get d k = None \<and> distinct_keys d)"


subsection \<open>Membership\<close>

text \<open>
  \<^verbatim>\<open>x in c\<close>: substring test on a string (the left operand must be a string), element test
  on a list, key test on a dictionary (the left operand must be hashable); anything else is
  not a container and raises \<^verbatim>\<open>TypeError\<close>.
\<close>

fun starts_with :: "string \<Rightarrow> string \<Rightarrow> bool" where
  "starts_with s [] = True"
| "starts_with [] (c # t) = False"
| "starts_with (a # s) (c # t) = (a = c \<and> starts_with s t)"

fun substring_in :: "string \<Rightarrow> string \<Rightarrow> bool" where
  "substring_in t [] = (t = [])"
| "substring_in t (a # s) = (starts_with (a # s) t \<or> substring_in t s)"

fun py_in :: "pyval \<Rightarrow> pyval \<Rightarrow> error + bool" where
  "py_in x (PStr s) = (case x of PStr t \<Rightarrow> Inr (substring_in t s) | _ \<Rightarrow> Inl TypeError)"
| "py_in x (PList ys) = Inr (list_ex (py_eq x) ys)"
| "py_in x (PDict d) =
     (case key_of_val x of
        None \<Rightarrow> Inl TypeError
      | Some k \<Rightarrow> Inr (dict_get d k \<noteq> None))"
| "py_in x c = Inl TypeError"

subsection \<open>Ordering\<close>

text \<open>
  \<^verbatim>\<open>>\<close>, \<^verbatim>\<open>>=\<close>, \<^verbatim>\<open><\<close>, \<^verbatim>\<open><=\<close> are defined between two numbers (booleans count as 0 and 1),
  between two strings (by code points) and between two lists (at the first position where
  the elements are not equal the elements decide, otherwise the lengths do).  Every other
  pair raises \<^verbatim>\<open>TypeError\<close>.
\<close>

datatype cmpop = Gt | Ge | Lt | Le

fun cmp_int :: "cmpop \<Rightarrow> int \<Rightarrow> int \<Rightarrow> bool" where
  "cmp_int Gt i j = (i > j)"
| "cmp_int Ge i j = (i \<ge> j)"
| "cmp_int Lt i j = (i < j)"
| "cmp_int Le i j = (i \<le> j)"

fun cmp_str :: "cmpop \<Rightarrow> string \<Rightarrow> string \<Rightarrow> bool" where
  "cmp_str op (a # s) (c # t) =
     (if a = c then cmp_str op s t else cmp_int op (of_char a) (of_char c))"
| "cmp_str op s t = cmp_int op (int (length s)) (int (length t))"

fun py_cmp :: "cmpop \<Rightarrow> pyval \<Rightarrow> pyval \<Rightarrow> error + bool"
  and py_cmp_list :: "cmpop \<Rightarrow> pyval list \<Rightarrow> pyval list \<Rightarrow> error + bool" where
  "py_cmp op (PStr s) b = (case b of PStr t \<Rightarrow> Inr (cmp_str op s t) | _ \<Rightarrow> Inl TypeError)"
| "py_cmp op (PList xs) b = (case b of PList ys \<Rightarrow> py_cmp_list op xs ys | _ \<Rightarrow> Inl TypeError)"
| "py_cmp op a b =
     (case (py_num a, py_num b) of
        (Some i, Some j) \<Rightarrow> Inr (cmp_int op i j)
      | _ \<Rightarrow> Inl TypeError)"
| "py_cmp_list op (x # xs) (y # ys) =
     (if py_eq x y then py_cmp_list op xs ys else py_cmp op x y)"
| "py_cmp_list op xs ys = Inr (cmp_int op (int (length xs)) (int (length ys)))"

subsection \<open>Rendering\<close>

text \<open>
  \<^verbatim>\<open>"{0}".format(x)\<close> is \<^verbatim>\<open>str(x)\<close> for the values of the model.  A string renders as
  itself; inside a list or a dictionary it renders as \<^verbatim>\<open>repr\<close> does, in quotes and with
  escapes.
\<close>

fun show_nat :: "nat \<Rightarrow> string" where
  "show_nat n =
     (if n < 10 then [''0123456789'' ! n]
      else show_nat (n div 10) @ [''0123456789'' ! (n mod 10)])"

definition show_int :: "int \<Rightarrow> string" where
  "show_int i = (if i < 0 then CHR ''-'' # show_nat (nat (- i)) else show_nat (nat i))"

definition hex2 :: "nat \<Rightarrow> string" where
  "hex2 n = [''0123456789abcdef'' ! (n div 16), ''0123456789abcdef'' ! (n mod 16)]"

definition py_printable :: "char \<Rightarrow> bool" where
  "py_printable c =
     (let n = (of_char c :: nat) in (32 \<le> n \<and> n < 127) \<or> (161 \<le> n \<and> n \<noteq> 173))"

definition repr_char :: "char \<Rightarrow> char \<Rightarrow> string" where
  "repr_char q c =
     (if c = q \<or> c = CHR 0x5C then [CHR 0x5C, c]
      else if c = CHR 0x09 then [CHR 0x5C, CHR ''t'']
      else if c = CHR 0x0A then [CHR 0x5C, CHR ''n'']
      else if c = CHR 0x0D then [CHR 0x5C, CHR ''r'']
      else if py_printable c then [c]
      else [CHR 0x5C, CHR ''x''] @ hex2 (of_char c))"

definition repr_str :: "string \<Rightarrow> string" where
  "repr_str s =
     (let q = (if CHR 0x27 \<in> set s \<and> CHR 0x22 \<notin> set s then CHR 0x22 else CHR 0x27)
      in [q] @ concat (map (repr_char q) s) @ [q])"

fun join :: "string \<Rightarrow> string list \<Rightarrow> string" where
  "join sep [] = []"
| "join sep [s] = s"
| "join sep (s # ss) = s @ sep @ join sep ss"

fun key_repr :: "pykey \<Rightarrow> string" where
  "key_repr KNone = ''None''"
| "key_repr (KBool b) = (if b then ''True'' else ''False'')"
| "key_repr (KInt i) = show_int i"
| "key_repr (KStr s) = repr_str s"
| "key_repr (KObj i c s r) = r"

fun py_repr :: "pyval \<Rightarrow> string"
  and py_repr_list :: "pyval list \<Rightarrow> string list"
  and py_repr_items :: "(pykey \<times> pyval) list \<Rightarrow> string list" where
  "py_repr PNone = ''None''"
| "py_repr (PBool b) = (if b then ''True'' else ''False'')"
| "py_repr (PInt i) = show_int i"
| "py_repr (PStr s) = repr_str s"
| "py_repr (PList xs) = ''['' @ join '', '' (py_repr_list xs) @ '']''"
| "py_repr (PDict d) = ''{'' @ join '', '' (py_repr_items d) @ ''}''"
| "py_repr (PObj i c s r) = r"
| "py_repr_list [] = []"
| "py_repr_list (x # xs) = py_repr x # py_repr_list xs"
| "py_repr_items [] = []"
| "py_repr_items ((k, v) # d) =
     (key_repr k @ '': '' @ py_repr v) # py_repr_items d"

fun py_str :: "pyval \<Rightarrow> string" where
  "py_str (PStr s) = s"
| "py_str (PObj i c s r) = s"
| "py_str v = py_repr v"

section \<open>The environment\<close>

text \<open>
  What the module takes from outside itself: Python's \<^verbatim>\<open>eval\<close> and the instantiation of a
  class that is not one of the built-in data types; the minion's
  \<^verbatim>\<open>salt.client.Caller(...).function\<close>, whose answer may depend on the calls made before;
  \<^verbatim>\<open>os.walk\<close>, \<^verbatim>\<open>os.path.abspath\<close>, and \<^verbatim>\<open>open\<close> followed by \<^verbatim>\<open>yaml.load\<close>; the global
  \<^verbatim>\<open>__opts__\<close>.  A call of \<^verbatim>\<open>function\<close> is recorded with the values given for
  \<^verbatim>\<open>*args\<close> and \<^verbatim>\<open>**kwargs\<close> (\<open>None\<close> when the call passes none); unpacking them is part of
  the call.  \<open>Inl exc\<close> from \<open>salt_function\<close> means that the call raised the exception object
  \<open>exc\<close>, a subclass of \<^verbatim>\<open>Exception\<close>.  The path separator \<^verbatim>\<open>os.sep\<close> is \<^verbatim>\<open>/\<close>.
\<close>

type_synonym call = "pyval \<times> pyval option \<times> pyval option"

record env =
  py_eval :: "string \<Rightarrow> error + pyval"
  py_new :: "string \<Rightarrow> pyval \<Rightarrow> error + pyval"
  salt_function :: "call list \<Rightarrow> call \<Rightarrow> pyval + pyval"
  os_walk :: "string \<Rightarrow> (string \<times> string list \<times> string list) list"
  os_abspath :: "string \<Rightarrow> string"
  yaml_load_file :: "string \<Rightarrow> error + pyval"
  dunder_opts :: "(pykey \<times> pyval) list"

section \<open>The assertions\<close>

text \<open>
  Each evaluator is \<^verbatim>\<open>try: assert cond, msg / except AssertionError\<close>: a false condition
  gives the string \<^verbatim>\<open>"False: " + msg\<close>, a true one gives \<open>True\<close>.  Only
  \<^verbatim>\<open>AssertionError\<close> is caught, so an exception raised while the condition is computed
  leaves the evaluator.
\<close>

definition failure :: "string \<Rightarrow> pyval" where
  "failure msg = PStr (''False: '' @ msg)"

definition assert_equal :: "pyval \<Rightarrow> pyval \<Rightarrow> error + pyval" where
  "assert_equal expected returned =
     (if py_eq expected returned then Inr (PBool True)
      else Inr (failure (py_str expected @ '' is not equal to '' @ py_str returned)))"

definition assert_not_equal :: "pyval \<Rightarrow> pyval \<Rightarrow> error + pyval" where
  "assert_not_equal expected returned =
     (if py_ne expected returned then Inr (PBool True)
      else Inr (failure (py_str expected @ '' is equal to '' @ py_str returned)))"

definition assert_true :: "pyval \<Rightarrow> error + pyval" where
  "assert_true returned =
     (if returned = PBool True then Inr (PBool True)
      else Inr (failure (py_str returned @ '' not True'')))"

definition assert_false :: "env \<Rightarrow> pyval \<Rightarrow> error + pyval" where
  "assert_false E returned =
     (case (case returned of PStr s \<Rightarrow> py_eval E s | _ \<Rightarrow> Inr returned) of
        Inl e \<Rightarrow> Inl e
      | Inr returned' \<Rightarrow>
          if returned' = PBool False then Inr (PBool True)
          else Inr (failure (py_str returned' @ '' not False'')))"

definition assert_in :: "pyval \<Rightarrow> pyval \<Rightarrow> error + pyval" where
  "assert_in expected returned =
     (case py_in expected returned of
        Inl e \<Rightarrow> Inl e
      | Inr c \<Rightarrow> if c then Inr (PBool True) else Inr (failure (py_str returned @ '' not False'')))"

definition assert_not_in :: "pyval \<Rightarrow> pyval \<Rightarrow> error + pyval" where
  "assert_not_in expected returned =
     (case py_in expected returned of
        Inl e \<Rightarrow> Inl e
      | Inr c \<Rightarrow> if \<not> c then Inr (PBool True) else Inr (failure (py_str returned @ '' not False'')))"

definition assert_cmp :: "cmpop \<Rightarrow> pyval \<Rightarrow> pyval \<Rightarrow> error + pyval" where
  "assert_cmp op expected returned =
     (case py_cmp op expected returned of
        Inl e \<Rightarrow> Inl e
      | Inr c \<Rightarrow> if c then Inr (PBool True) else Inr (failure (py_str returned @ '' not False'')))"

definition assert_greater :: "pyval \<Rightarrow> pyval \<Rightarrow> error + pyval" where
  "assert_greater expected returned = assert_cmp Gt expected returned"

definition assert_greater_equal :: "pyval \<Rightarrow> pyval \<Rightarrow> error + pyval" where
  "assert_greater_equal expected returned = assert_cmp Ge expected returned"

definition assert_less :: "pyval \<Rightarrow> pyval \<Rightarrow> error + pyval" where
  "assert_less expected returned = assert_cmp Lt expected returned"

definition assert_less_equal :: "pyval \<Rightarrow> pyval \<Rightarrow> error + pyval" where
  "assert_less_equal expected returned = assert_cmp Le expected returned"

text \<open>A test result is \<open>True\<close> or a string that starts with \<^verbatim>\<open>False: \<close>.\<close>

definition is_test_result :: "pyval \<Rightarrow> bool" where
  "is_test_result v = (v = PBool True \<or> (case v of PStr s \<Rightarrow> starts_with s ''False: '' | _ \<Rightarrow> False))"

text \<open>Whether an evaluator came back with a test result rather than an exception.\<close>

definition returns_result :: "error + pyval \<Rightarrow> bool" where
  "returns_result x = (case x of Inl e \<Rightarrow> False | Inr v \<Rightarrow> is_test_result v)"

section \<open>Casting the expected value\<close>

text \<open>
  \<^verbatim>\<open>ret_type(expected)\<close> calls the type of the returned value on the expected one.  The
  built-in types are written out: \<^verbatim>\<open>NoneType\<close> takes no argument; \<^verbatim>\<open>bool\<close> is the truth
  value; \<^verbatim>\<open>int\<close> parses a string in base 10 (surrounding white space as \<^verbatim>\<open>int\<close> knows it,
  a sign, digits that single underscores may separate; the limit that recent CPython
  versions put on the number of digits is not modelled); \<^verbatim>\<open>str\<close> renders; \<^verbatim>\<open>list\<close> iterates; \<^verbatim>\<open>dict\<close> copies a
  dictionary or reads a sequence of pairs.  Any other class is the environment's.
\<close>

definition int_space :: "char \<Rightarrow> bool" where
  "int_space c =
     (let n = (of_char c :: nat) in (9 \<le> n \<and> n \<le> 13) \<or> n = 32 \<or> n = 133 \<or> n = 160)"

definition strip :: "string \<Rightarrow> string" where
  "strip s = rev (dropWhile int_space (rev (dropWhile int_space s)))"

definition is_digit :: "char \<Rightarrow> bool" where
  "is_digit c = (48 \<le> (of_char c :: nat) \<and> (of_char c :: nat) \<le> 57)"

definition digit_val :: "char \<Rightarrow> nat" where
  "digit_val c = of_char c - 48"

fun parse_digits :: "nat \<Rightarrow> string \<Rightarrow> nat option" where
  "parse_digits acc [] = Some acc"
| "parse_digits acc [c] = (if is_digit c then Some (acc * 10 + digit_val c) else None)"
| "parse_digits acc (c # d # cs) =
     (if is_digit c then parse_digits (acc * 10 + digit_val c) (d # cs)
      else if c = CHR ''_'' \<and> is_digit d then parse_digits (acc * 10 + digit_val d) cs
      else None)"

definition parse_nat :: "string \<Rightarrow> nat option" where
  "parse_nat s = (case s of [] \<Rightarrow> None | c # cs \<Rightarrow> if is_digit c then parse_digits 0 s else None)"

definition int_of_str :: "string \<Rightarrow> int option" where
  "int_of_str s =
     (case strip s of
        [] \<Rightarrow> None
      | c # cs \<Rightarrow>
          if c = CHR ''-'' then map_option (\<lambda>n. - int n) (parse_nat cs)
          else if c = CHR ''+'' then map_option int (parse_nat cs)
          else map_option int (parse_nat (c # cs)))"

fun dict_set :: "(pykey \<times> 'v) list \<Rightarrow> pykey \<Rightarrow> 'v \<Rightarrow> (pykey \<times> 'v) list" where
  "dict_set [] k v = [(k, v)]"
| "dict_set ((k', v') # d) k v =
     (if key_eq k' k then (k', v) # d else (k', v') # dict_set d k v)"

text \<open>
  One element of the sequence given to \<^verbatim>\<open>dict\<close>: it is iterated and must give exactly two
  items, the first of them hashable.
\<close>

definition pair_of :: "pyval \<Rightarrow> error + pykey \<times> pyval" where
  "pair_of x =
     (case (case x of
              PList xs \<Rightarrow> Inr xs
            | PStr s \<Rightarrow> Inr (map (\<lambda>c. PStr [c]) s)
            | PDict d \<Rightarrow> Inr (map (\<lambda>kv. val_of_key (fst kv)) d)
            | _ \<Rightarrow> Inl TypeError) of
        Inl e \<Rightarrow> Inl e
      | Inr [k, v] \<Rightarrow> (case key_of_val k of None \<Rightarrow> Inl TypeError | Some k' \<Rightarrow> Inr (k', v))
      | Inr _ \<Rightarrow> Inl ValueError)"

fun dict_of_pairs :: "(pykey \<times> pyval) list \<Rightarrow> pyval list \<Rightarrow> error + pyval" where
  "dict_of_pairs d [] = Inr (PDict d)"
| "dict_of_pairs d (x # xs) =
     (case pair_of x of
        Inl e \<Rightarrow> Inl e
      | Inr (k, v) \<Rightarrow> dict_of_pairs (dict_set d k v) xs)"

fun py_construct :: "env \<Rightarrow> pytype \<Rightarrow> pyval \<Rightarrow> error + pyval" where
  "py_construct E TNone x = Inl TypeError"
| "py_construct E TBool x = Inr (PBool (py_truthy x))"
| "py_construct E TInt x =
     (case x of
        PBool b \<Rightarrow> Inr (PInt (if b then 1 else 0))
      | PInt i \<Rightarrow> Inr (PInt i)
      | PStr s \<Rightarrow> (case int_of_str s of None \<Rightarrow> Inl ValueError | Some i \<Rightarrow> Inr (PInt i))
      | _ \<Rightarrow> Inl TypeError)"
| "py_construct E TStr x = Inr (PStr (py_str x))"
| "py_construct E TList x =
     (case x of
        PStr s \<Rightarrow> Inr (PList (map (\<lambda>c. PStr [c]) s))
      | PList xs \<Rightarrow> Inr (PList xs)
      | PDict d \<Rightarrow> Inr (PList (map (\<lambda>kv. val_of_key (fst kv)) d))
      | _ \<Rightarrow> Inl TypeError)"
| "py_construct E TDict x =
     (case x of
        PDict d \<Rightarrow> Inr (PDict d)
      | PList xs \<Rightarrow> dict_of_pairs [] xs
      | PStr s \<Rightarrow> dict_of_pairs [] (map (\<lambda>c. PStr [c]) s)
      | _ \<Rightarrow> Inl TypeError)"
| "py_construct E (TClass c) x = py_new E c x"

text \<open>
  \<^verbatim>\<open>cast_expected_to_returned_type\<close>: the literal string \<^verbatim>\<open>"False"\<close> becomes the boolean
  when the returned value is a boolean; then the cast is tried, and when it raises (the
  \<^verbatim>\<open>except:\<close> catches everything) the value the function was called with is returned.
\<close>

definition cast_expected_to_returned_type :: "env \<Rightarrow> pyval \<Rightarrow> pyval \<Rightarrow> pyval" where
  "cast_expected_to_returned_type E expected returned =
     (let ret_type = py_type returned;
          new_expected = expected;
          expected' = (if py_eq expected (PStr ''False'') \<and> ret_type = TBool
                       then PBool False else expected)
      in case py_construct E ret_type expected' of
           Inl e \<Rightarrow> new_expected
         | Inr v \<Rightarrow> v)"

section \<open>The class SaltCheck\<close>

text \<open>
  The object holds the minion options, the list of assertion names and the list of modules
  that \<^verbatim>\<open>sys.list_modules\<close> gave when the object was built.  A method that talks to the
  minion takes the calls made so far and returns them extended.  Building the
  \<^verbatim>\<open>salt.client.Caller\<close> and writing to the log have no part in the model.

  \<^verbatim>\<open>call_salt_command\<close> hands every exception of the call back as its value, so the
  \<^verbatim>\<open>except\<close> clause of \<^verbatim>\<open>is_valid_function\<close> is never entered and is left out.
\<close>

record SaltCheck =
  opts :: "(pykey \<times> pyval) list"
  assertions_list :: "string list"
  modules :: pyval

definition call_salt_command ::
  "env \<Rightarrow> pyval \<Rightarrow> pyval \<Rightarrow> pyval \<Rightarrow> call list \<Rightarrow> pyval \<times> call list" where
  "call_salt_command E fn args kwargs log =
     (let c = (if py_truthy args \<and> py_truthy kwargs then (fn, Some args, Some kwargs)
               else if py_truthy args \<and> \<not> py_truthy kwargs then (fn, Some args, None)
               else if \<not> py_truthy args \<and> py_truthy kwargs then (fn, None, Some kwargs)
               else (fn, None, None))
      in (case salt_function E log c of Inl err \<Rightarrow> err | Inr v \<Rightarrow> v, log @ [c]))"

definition populate_salt_modules_list :: "env \<Rightarrow> call list \<Rightarrow> pyval \<times> call list" where
  "populate_salt_modules_list E log = call_salt_command E (PStr ''sys.list_modules'') PNone PNone log"

definition SaltCheck_init ::
  "env \<Rightarrow> (pykey \<times> pyval) list option \<Rightarrow> call list \<Rightarrow> SaltCheck \<times> call list" where
  "SaltCheck_init E opts_arg log =
     (let (ms, log') = populate_salt_modules_list E log
      in (\<lparr> opts = (case opts_arg of
                      None \<Rightarrow> dunder_opts E
                    | Some d \<Rightarrow> if d \<noteq> [] then d else dunder_opts E),
             assertions_list =
               [''assertEqual'', ''assertNotEqual'', ''assertTrue'', ''assertFalse'',
                ''assertIn'', ''assertGreater'', ''assertGreaterEqual'',
                ''assertLess'', ''assertLessEqual''],
             modules = ms \<rparr>, log'))"

definition is_valid_module :: "SaltCheck \<Rightarrow> string \<Rightarrow> error + bool" where
  "is_valid_module sc module_name =
     (case py_in (PStr module_name) (modules sc) of
        Inl e \<Rightarrow> Inl e
      | Inr c \<Rightarrow> if \<not> c then Inr False else Inr True)"

definition is_valid_function ::
  "env \<Rightarrow> SaltCheck \<Rightarrow> string \<Rightarrow> string \<Rightarrow> call list \<Rightarrow> (error + bool) \<times> call list" where
  "is_valid_function E sc module_name function log =
     (let (functions, log') =
            call_salt_command E (PStr ''sys.list_functions'') (PList [PStr module_name]) PNone log
      in (py_in (PStr (module_name @ ''.'' @ function)) functions, log'))"

fun split_on :: "char \<Rightarrow> string \<Rightarrow> string list" where
  "split_on c [] = [[]]"
| "split_on c (x # xs) =
     (let ps = split_on c xs in if x = c then [] # ps else (x # hd ps) # tl ps)"

text \<open>\<^verbatim>\<open>d.get(k, None)\<close>; on anything but a dictionary the attribute \<^verbatim>\<open>get\<close> is missing.\<close>

definition get_or_None :: "(pykey \<times> pyval) list \<Rightarrow> string \<Rightarrow> pyval" where
  "get_or_None items k = (case dict_get items (KStr k) of None \<Rightarrow> PNone | Some v \<Rightarrow> v)"

definition py_get :: "pyval \<Rightarrow> string \<Rightarrow> error + pyval" where
  "py_get d k =
     (case d of
        PDict items \<Rightarrow> Inr (get_or_None items k)
      | _ \<Rightarrow> Inl AttributeError)"

text \<open>\<^verbatim>\<open>d[k]\<close> on the test dictionary.\<close>

definition py_index :: "pyval \<Rightarrow> string \<Rightarrow> error + pyval" where
  "py_index d k =
     (case d of
        PDict items \<Rightarrow> (case dict_get items (KStr k) of None \<Rightarrow> Inl KeyError | Some v \<Rightarrow> Inr v)
      | _ \<Rightarrow> Inl TypeError)"

text \<open>
  \<^verbatim>\<open>module, function = m_and_f.split('.')\<close>: only a string has \<^verbatim>\<open>split\<close>, and the
  unpacking needs exactly two parts.
\<close>

definition split_module_function :: "pyval \<Rightarrow> error + string \<times> string" where
  "split_module_function m_and_f =
     (case m_and_f of
        PStr s \<Rightarrow> (case split_on CHR ''.'' s of [m, f] \<Rightarrow> Inr (m, f) | _ \<Rightarrow> Inl ValueError)
      | _ \<Rightarrow> Inl AttributeError)"

text \<open>
  The three points of \<^verbatim>\<open>if m_and_f:\<close>, with the exceptions of the split and of the two
  look-ups.
\<close>

definition module_function_points ::
  "env \<Rightarrow> SaltCheck \<Rightarrow> pyval \<Rightarrow> call list \<Rightarrow> (error + nat) \<times> call list" where
  "module_function_points E sc m_and_f log =
     (if py_truthy m_and_f then
        (case split_module_function m_and_f of
           Inl e \<Rightarrow> (Inl e, log)
         | Inr (module, function) \<Rightarrow>
             (case is_valid_module sc module of
                Inl e \<Rightarrow> (Inl e, log)
              | Inr vm \<Rightarrow>
                  (case is_valid_function E sc module function log of
                     (Inl e, log') \<Rightarrow> (Inl e, log')
                   | (Inr vf, log') \<Rightarrow>
                       (Inr (1 + (if vm then 1 else 0) + (if vf then 1 else 0)), log'))))
      else (Inr 0, log))"

definition assertion_points :: "SaltCheck \<Rightarrow> pyval \<Rightarrow> nat" where
  "assertion_points sc assertion =
     (if py_truthy assertion then
        1 + (if list_ex (py_eq assertion) (map PStr (assertions_list sc)) then 1 else 0)
      else 0)"

definition is_valid_test ::
  "env \<Rightarrow> SaltCheck \<Rightarrow> pyval \<Rightarrow> call list \<Rightarrow> (error + bool) \<times> call list" where
  "is_valid_test E sc test_dict log =
     (case (py_get test_dict ''module_and_function'', py_get test_dict ''assertion'',
            py_get test_dict ''expected-return'') of
        (Inr m_and_f, Inr assertion, Inr expected_return) \<Rightarrow>
          (case module_function_points E sc m_and_f log of
             (Inl e, log') \<Rightarrow> (Inl e, log')
           | (Inr p, log') \<Rightarrow>
               (let tots = p + assertion_points sc assertion
                           + (if py_truthy expected_return then 1 else 0)
                in (Inr (tots \<ge> 6), log')))
      | _ \<Rightarrow> (Inl AttributeError, log))"

text \<open>The chain of comparisons that picks the evaluator.\<close>

definition dispatch :: "env \<Rightarrow> pyval \<Rightarrow> pyval \<Rightarrow> pyval \<Rightarrow> error + pyval" where
  "dispatch E assertion expected_return actual_return =
     (if py_eq assertion (PStr ''assertEqual'') then assert_equal expected_return actual_return
      else if py_eq assertion (PStr ''assertNotEqual'')
        then assert_not_equal expected_return actual_return
      else if py_eq assertion (PStr ''assertTrue'') then assert_true expected_return
      else if py_eq assertion (PStr ''assertFalse'') then assert_false E expected_return
      else if py_eq assertion (PStr ''assertIn'') then assert_in expected_return actual_return
      else if py_eq assertion (PStr ''assertNotIn'')
        then assert_not_in expected_return actual_return
      else if py_eq assertion (PStr ''assertGreater'')
        then assert_greater expected_return actual_return
      else if py_eq assertion (PStr ''assertGreaterEqual'')
        then assert_greater_equal expected_return actual_return
      else if py_eq assertion (PStr ''assertLess'') then assert_less expected_return actual_return
      else if py_eq assertion (PStr ''assertLessEqual'')
        then assert_less_equal expected_return actual_return
      else Inr (PBool False))"

text \<open>The body of the valid branch of \<^verbatim>\<open>run_test\<close>.\<close>

definition run_valid_test ::
  "env \<Rightarrow> pyval \<Rightarrow> call list \<Rightarrow> (error + pyval) \<times> call list" where
  "run_valid_test E test_dict log =
     (case (py_index test_dict ''module_and_function'', py_get test_dict ''args'',
            py_index test_dict ''assertion'', py_index test_dict ''expected-return'',
            py_get test_dict ''kwargs'') of
        (Inr mod_and_func, Inr args, Inr assertion, Inr expected_return, Inr kwargs) \<Rightarrow>
          (let (actual_return, log') = call_salt_command E mod_and_func args kwargs log;
               expected_return' = cast_expected_to_returned_type E expected_return actual_return
           in (dispatch E assertion expected_return' actual_return, log'))
      | (Inl e, _) \<Rightarrow> (Inl e, log)
      | (_, Inl e, _) \<Rightarrow> (Inl e, log)
      | (_, _, Inl e, _) \<Rightarrow> (Inl e, log)
      | (_, _, _, Inl e, _) \<Rightarrow> (Inl e, log)
      | (_, _, _, _, Inl e) \<Rightarrow> (Inl e, log))"

definition run_test ::
  "env \<Rightarrow> SaltCheck \<Rightarrow> pyval \<Rightarrow> call list \<Rightarrow> (error + pyval) \<times> call list" where
  "run_test E sc test_dict log =
     (case is_valid_test E sc test_dict log of
        (Inl e, log') \<Rightarrow> (Inl e, log')
      | (Inr valid, log') \<Rightarrow>
          if valid then run_valid_test E test_dict log'
          else (Inr (PStr ''False: Invalid test''), log'))"





section \<open>The class StateTestLoader\<close>

record StateTestLoader =
  search_paths :: "string list"
  test_files :: "string list"
  test_dict :: "(pykey \<times> pyval) list"


text \<open>
  \<^verbatim>\<open>load_file\<close>: the file is opened and parsed (the environment's part; an exception is
  raised again), and every item of the mapping is stored under its key.  What is not a
  mapping has no \<^verbatim>\<open>items\<close>.
\<close>

fun store_items :: "(pykey \<times> pyval) list \<Rightarrow> (pykey \<times> pyval) list \<Rightarrow> (pykey \<times> pyval) list" where
  "store_items d [] = d"
| "store_items d ((key, val) # items) = store_items (dict_set d key val) items"

definition load_file :: "env \<Rightarrow> StateTestLoader \<Rightarrow> string \<Rightarrow> error + StateTestLoader" where
  "load_file E stl filepath =
     (case yaml_load_file E filepath of
        Inl e \<Rightarrow> Inl e
      | Inr (PDict items) \<Rightarrow> Inr (stl\<lparr> test_dict := store_items (test_dict stl) items \<rparr>)
      | Inr _ \<Rightarrow> Inl AttributeError)"

fun load_files :: "env \<Rightarrow> StateTestLoader \<Rightarrow> string list \<Rightarrow> error + StateTestLoader" where
  "load_files E stl [] = Inr stl"
| "load_files E stl (myfile # rest) =
     (case load_file E stl myfile of
        Inl e \<Rightarrow> Inl e
      | Inr stl' \<Rightarrow> load_files E stl' rest)"

definition load_test_suite :: "env \<Rightarrow> StateTestLoader \<Rightarrow> error + StateTestLoader" where
  "load_test_suite E stl = load_files E stl (test_files stl)"





section \<open>Running the tests of one state\<close>





section \<open>The validation conditions, one by one\<close>

text \<open>
  The conditions of is_valid_test written as a strict conjunction, to compare the additive
  score with: the target operation is a string that splits at its dot into a module and a
  function, the module is among the minion's modules and the function among the functions
  the minion lists for it; the assertion is not empty and is one of the names of
  \<open>assertions_list\<close>; the expected return value is true in a condition.
\<close>

definition registered :: "env \<Rightarrow> SaltCheck \<Rightarrow> pyval \<Rightarrow> call list \<Rightarrow> bool" where
  "registered E sc m_and_f log =
     (case m_and_f of
        PStr s \<Rightarrow>
          (case split_on CHR ''.'' s of
             [m, f] \<Rightarrow>
               py_in (PStr m) (modules sc) = Inr True
               \<and> py_in (PStr (m @ ''.'' @ f))
                    (fst (call_salt_command E (PStr ''sys.list_functions'') (PList [PStr m])
                            PNone log)) = Inr True
           | _ \<Rightarrow> False)
      | _ \<Rightarrow> False)"

definition recognized :: "SaltCheck \<Rightarrow> pyval \<Rightarrow> bool" where
  "recognized sc assertion =
     (py_truthy assertion
      \<and> (case assertion of PStr a \<Rightarrow> a \<in> set (assertions_list sc) | _ \<Rightarrow> False))"

definition strict_conjunction :: "env \<Rightarrow> SaltCheck \<Rightarrow> (pykey \<times> pyval) list \<Rightarrow> call list \<Rightarrow> bool" where
  "strict_conjunction E sc d log =
     (registered E sc (get_or_None d ''module_and_function'') log
      \<and> recognized sc (get_or_None d ''assertion'')
      \<and> py_truthy (get_or_None d ''expected-return''))"

section \<open>The merged collection, as the specification describes it\<close>

text \<open>
  Last write wins: the body of a test name is the one in the last file, in discovery
  order, whose mapping has the name.
\<close>

fun last_definition :: "env \<Rightarrow> string list \<Rightarrow> pykey \<Rightarrow> pyval option" where
  "last_definition E [] name = None"
| "last_definition E (f # fs) name =
     (case last_definition E fs name of
        Some body \<Rightarrow> Some body
      | None \<Rightarrow>
          (case yaml_load_file E f of
             Inr (PDict items) \<Rightarrow> dict_get items name
           | _ \<Rightarrow> None))"

section \<open>An example minion\<close>

text \<open>
  A small environment on which the definitions can be run: a minion with the module
  \<^verbatim>\<open>test\<close> and its functions \<^verbatim>\<open>test.echo\<close> and \<^verbatim>\<open>test.ping\<close>, and a cache directory
  \<^verbatim>\<open>/c\<close> holding the state \<^verbatim>\<open>apache\<close> with two test files.
\<close>

definition example_function :: "call list \<Rightarrow> call \<Rightarrow> pyval + pyval" where
  "example_function log c =
     (case c of (fn, args, kwargs) \<Rightarrow>
        if fn = PStr ''sys.list_modules'' then Inr (PList [PStr ''test''])
        else if fn = PStr ''sys.list_functions''
          then Inr (PList [PStr ''test.echo'', PStr ''test.ping''])
        else if fn = PStr ''test.ping'' then Inr (PBool True)
        else if fn = PStr ''test.echo'' then
          (case args of
             Some (PList [x]) \<Rightarrow> Inr x
           | _ \<Rightarrow> Inl (PObj 1 ''TypeError'' ''echo takes one argument'' ''TypeError()''))
        else Inl (PObj 2 ''CommandExecutionError'' ''not available'' ''CommandExecutionError()''))"

definition example_walk :: "string \<Rightarrow> (string \<times> string list \<times> string list) list" where
  "example_walk root =
     (if root = ''/c/files/base'' then
        [(''/c/files/base'', [''apache''], [''top.sls'']),
         (''/c/files/base/apache'', [''salt-check-tests''], [''init.sls'']),
         (''/c/files/base/apache/salt-check-tests'', [], [''a.tst'', ''b.tst'', ''notes.txt''])]
      else if root = ''/c/files/base/apache/salt-check-tests'' then
        [(''/c/files/base/apache/salt-check-tests'', [], [''a.tst'', ''b.tst'', ''notes.txt''])]
      else [])"

definition echo_test :: "pyval \<Rightarrow> pyval \<Rightarrow> pyval \<Rightarrow> pyval" where
  "echo_test m_and_f assertion expected =
     PDict [(KStr ''module_and_function'', m_and_f),
            (KStr ''args'', PList [PStr ''This works!'']),
            (KStr ''assertion'', assertion),
            (KStr ''expected-return'', expected)]"

definition example_yaml :: "string \<Rightarrow> error + pyval" where
  "example_yaml path =
     (if path = ''/c/files/base/apache/salt-check-tests/a.tst'' then
        Inr (PDict [(KStr ''dup'',
                      echo_test (PStr ''test.echo'') (PStr ''assertEqual'') (PStr ''Something else'')),
                    (KStr ''ping'',
                      echo_test (PStr ''test.ping'') (PStr ''assertTrue'') (PStr ''True''))])
      else if path = ''/c/files/base/apache/salt-check-tests/b.tst'' then
        Inr (PDict [(KStr ''dup'',
                      echo_test (PStr ''test.echo'') (PStr ''assertEqual'') (PStr ''This works!''))])
      else Inl (OtherError ''IOError''))"

definition example_env :: env where
  "example_env =
     \<lparr> py_eval = (\<lambda>s. if s = ''False'' then Inr (PBool False)
                       else if s = ''True'' then Inr (PBool True)
                       else Inl (OtherError ''NameError'')),
       py_new = (\<lambda>c x. Inr (PObj 3 c (py_str x) c)),
       salt_function = example_function,
       os_walk = example_walk,
       os_abspath = (\<lambda>path. path),
       yaml_load_file = example_yaml,
       dunder_opts = [(KStr ''cachedir'', PStr ''/c''), (KStr ''environment'', PNone)] \<rparr>"

text \<open>The object that \<^verbatim>\<open>SaltCheck()\<close> builds on the example minion.\<close>

definition example_check :: SaltCheck where
  "example_check = fst (SaltCheck_init example_env None [])"


text \<open>The loader after \<^verbatim>\<open>gather_files\<close> has found the two test files of the state.\<close>

definition example_loader :: StateTestLoader where
  "example_loader =
     \<lparr> search_paths = [''/c/files/base''],
       test_files = [''/c/files/base/apache/salt-check-tests/a.tst'',
                     ''/c/files/base/apache/salt-check-tests/b.tst''],
       test_dict = [] \<rparr>"

section \<open>Properties\<close>

subsection \<open>Equality of values and the evaluators\<close>


lemma key_eq_sym: "key_eq a b \<Longrightarrow> key_eq b a"
  by (cases a; cases b) (auto split: if_splits)

lemma key_eq_trans: "key_eq a b \<Longrightarrow> key_eq b c \<Longrightarrow> key_eq a c"
  by (cases a; cases b; cases c) (auto split: if_splits)








lemma starts_with_append: "starts_with (t @ s) t"
  by (induction t) auto



lemma is_test_result_failure: "is_test_result (failure msg)"
  by (simp add: is_test_result_def failure_def starts_with_append [of "''False: ''" msg, simplified])



text \<open>
  C1 as stated fails: \<^verbatim>\<open>1 in 5\<close> and \<^verbatim>\<open>1 not in "abc"\<close> raise \<^verbatim>\<open>TypeError\<close>, which
  \<^verbatim>\<open>except AssertionError\<close> does not catch.
\<close>

theorem assert_in_raises:
  "assert_in (PInt 1) (PInt 5) = Inl TypeError
   \<and> assert_not_in (PInt 1) (PStr ''abc'') = Inl TypeError"
  by (simp add: assert_in_def assert_not_in_def)

lemma returns_result_True: "returns_result (Inr (PBool True))"
  by (simp add: returns_result_def is_test_result_def)

lemma returns_result_failure: "returns_result (Inr (failure msg))"
  by (simp add: returns_result_def is_test_result_failure)

lemma returns_result_if:
  "returns_result (if c then Inr (PBool True) else Inr (failure msg))"
  by (simp add: returns_result_True returns_result_failure)

lemma assert_cmp_cases:
  "(case py_cmp op a b of
      Inl e \<Rightarrow> assert_cmp op a b = Inl e
    | Inr c \<Rightarrow> returns_result (assert_cmp op a b))"
  by (simp add: assert_cmp_def returns_result_if split: sum.splits)

text \<open>
  C1, amended.  \<^verbatim>\<open>assert_equal\<close>, \<^verbatim>\<open>assert_not_equal\<close> and \<^verbatim>\<open>assert_true\<close> return a test
  result for all arguments.  \<^verbatim>\<open>assert_false\<close> does so unless its argument is a string on
  which \<^verbatim>\<open>eval\<close> raises.  The membership and ordering evaluators return a test result
  exactly when the comparison itself does not raise; when it raises, the exception leaves
  the evaluator.
\<close>

theorem evaluators_result_or_raise:
  "returns_result (assert_equal a b)
   \<and> returns_result (assert_not_equal a b)
   \<and> returns_result (assert_true a)
   \<and> (case a of
        PStr s \<Rightarrow>
          (case py_eval E s of
             Inl e \<Rightarrow> assert_false E a = Inl e
           | Inr v \<Rightarrow> returns_result (assert_false E a))
      | _ \<Rightarrow> returns_result (assert_false E a))
   \<and> (case py_in a b of
        Inl e \<Rightarrow> assert_in a b = Inl e \<and> assert_not_in a b = Inl e
      | Inr c \<Rightarrow> returns_result (assert_in a b) \<and> returns_result (assert_not_in a b))
   \<and> (case py_cmp Gt a b of
        Inl e \<Rightarrow> assert_greater a b = Inl e
      | Inr c \<Rightarrow> returns_result (assert_greater a b))
   \<and> (case py_cmp Ge a b of
        Inl e \<Rightarrow> assert_greater_equal a b = Inl e
      | Inr c \<Rightarrow> returns_result (assert_greater_equal a b))
   \<and> (case py_cmp Lt a b of
        Inl e \<Rightarrow> assert_less a b = Inl e
      | Inr c \<Rightarrow> returns_result (assert_less a b))
   \<and> (case py_cmp Le a b of
        Inl e \<Rightarrow> assert_less_equal a b = Inl e
      | Inr c \<Rightarrow> returns_result (assert_less_equal a b))"
proof (intro conjI)
  show "returns_result (assert_equal a b)"
    unfolding assert_equal_def by (rule returns_result_if)
  show "returns_result (assert_not_equal a b)"
    unfolding assert_not_equal_def by (rule returns_result_if)
  show "returns_result (assert_true a)"
    unfolding assert_true_def by (rule returns_result_if)
  show "case a of
        PStr s \<Rightarrow>
          (case py_eval E s of
             Inl e \<Rightarrow> assert_false E a = Inl e
           | Inr v \<Rightarrow> returns_result (assert_false E a))
      | _ \<Rightarrow> returns_result (assert_false E a)"
    by (simp add: assert_false_def returns_result_True returns_result_failure
          split: pyval.splits sum.splits)
  show "case py_in a b of
        Inl e \<Rightarrow> assert_in a b = Inl e \<and> assert_not_in a b = Inl e
      | Inr c \<Rightarrow> returns_result (assert_in a b) \<and> returns_result (assert_not_in a b)"
    by (simp add: assert_in_def assert_not_in_def returns_result_if split: sum.splits)
  show "case py_cmp Gt a b of
        Inl e \<Rightarrow> assert_greater a b = Inl e
      | Inr c \<Rightarrow> returns_result (assert_greater a b)"
    unfolding assert_greater_def by (rule assert_cmp_cases)
  show "case py_cmp Ge a b of
        Inl e \<Rightarrow> assert_greater_equal a b = Inl e
      | Inr c \<Rightarrow> returns_result (assert_greater_equal a b)"
    unfolding assert_greater_equal_def by (rule assert_cmp_cases)
  show "case py_cmp Lt a b of
        Inl e \<Rightarrow> assert_less a b = Inl e
      | Inr c \<Rightarrow> returns_result (assert_less a b)"
    unfolding assert_less_def by (rule assert_cmp_cases)
  show "case py_cmp Le a b of
        Inl e \<Rightarrow> assert_less_equal a b = Inl e
      | Inr c \<Rightarrow> returns_result (assert_less_equal a b)"
    unfolding assert_less_equal_def by (rule assert_cmp_cases)
qed


subsection \<open>The cast\<close>

lemma int_of_str_5: "int_of_str ''5'' = Some 5"
  by (simp add: int_of_str_def strip_def int_space_def parse_nat_def is_digit_def digit_val_def)

lemma int_of_str_garbage: "int_of_str ''unparsed-garbage'' = None"
  by (simp add: int_of_str_def strip_def int_space_def parse_nat_def is_digit_def digit_val_def)

text \<open>
  C7.  The cast turns \<^verbatim>\<open>"5"\<close> into the integer 5 when the returned value is an integer,
  \<^verbatim>\<open>"True"\<close> into \<open>True\<close> and \<^verbatim>\<open>"False"\<close> into \<open>False\<close> when it is a boolean, and leaves
  \<^verbatim>\<open>"unparsed-garbage"\<close> as it is when the returned value is the integer 0.  Whenever the
  call of the returned value's type raises, the expected value comes back unchanged; the
  function itself never raises.
\<close>

theorem cast_round_trips:
  "cast_expected_to_returned_type E (PStr ''5'') (PInt n) = PInt 5
   \<and> cast_expected_to_returned_type E (PStr ''True'') (PBool b) = PBool True
   \<and> cast_expected_to_returned_type E (PStr ''False'') (PBool b) = PBool False
   \<and> cast_expected_to_returned_type E (PStr ''unparsed-garbage'') (PInt 0)
       = PStr ''unparsed-garbage''
   \<and> (py_construct E (py_type returned)
         (if py_eq expected (PStr ''False'') \<and> py_type returned = TBool
          then PBool False else expected) = Inl e
       \<longrightarrow> cast_expected_to_returned_type E expected returned = expected)"
  by (simp add: cast_expected_to_returned_type_def int_of_str_5 int_of_str_garbage)

text \<open>\<^verbatim>\<open>NoneType("x")\<close> raises, and \<^verbatim>\<open>"x"\<close> is what comes back.\<close>

theorem cast_round_trips_witness:
  "py_construct example_env (py_type PNone)
     (if py_eq (PStr ''x'') (PStr ''False'') \<and> py_type PNone = TBool
      then PBool False else PStr ''x'') = Inl TypeError
   \<and> cast_expected_to_returned_type example_env (PStr ''x'') PNone = PStr ''x''
   \<and> cast_expected_to_returned_type example_env (PStr ''5'') (PInt 0) = PInt 5"
  using cast_round_trips [of example_env 0 True PNone "PStr ''x''" TypeError]
  by simp

subsection \<open>Validation\<close>

lemma assertion_points_le: "assertion_points sc a \<le> 2"
  by (simp add: assertion_points_def)

lemma assertion_points_2: "assertion_points sc a = 2 \<longleftrightarrow> recognized sc a"
  by (cases a) (auto simp: assertion_points_def recognized_def list_ex_iff)

lemma module_function_points_le:
  "module_function_points E sc m log = (Inr p, log') \<Longrightarrow> p \<le> 3"
  by (auto simp: module_function_points_def split: if_splits sum.splits prod.splits)

lemma split_two_truthy: "split_on CHR ''.'' s = [m, f] \<Longrightarrow> s \<noteq> []"
  by (cases s) auto

lemma module_function_points_3:
  "fst (module_function_points E sc m log) = Inr 3 \<longleftrightarrow> registered E sc m log"
proof (cases m)
  case (PStr s)
  show ?thesis
  proof (cases "\<exists>a b. split_on CHR ''.'' s = [a, b]")
    case True
    then obtain a b where ab: "split_on CHR ''.'' s = [a, b]" by blast
    then have "s \<noteq> []" by (rule split_two_truthy)
    then show ?thesis using PStr ab
      by (auto simp: module_function_points_def registered_def split_module_function_def
            is_valid_module_def is_valid_function_def split: sum.splits prod.splits)
  next
    case False
    then have "split_module_function m = Inl ValueError"
      using PStr by (auto simp: split_module_function_def split: list.splits)
    moreover have "\<not> registered E sc m log"
      using PStr False by (auto simp: registered_def split: list.splits)
    ultimately show ?thesis
      by (simp add: module_function_points_def)
  qed
qed (auto simp: module_function_points_def registered_def split_module_function_def)

lemma is_valid_test_dict:
  "is_valid_test E sc (PDict d) log =
     (case module_function_points E sc (get_or_None d ''module_and_function'') log of
        (Inl e, log') \<Rightarrow> (Inl e, log')
      | (Inr p, log') \<Rightarrow>
          (Inr (p + assertion_points sc (get_or_None d ''assertion'')
                + (if py_truthy (get_or_None d ''expected-return'') then 1 else 0) \<ge> 6), log'))"
  by (simp add: is_valid_test_def py_get_def Let_def split: prod.splits sum.splits)

lemma is_valid_test_True_iff:
  "fst (is_valid_test E sc (PDict d) log) = Inr True \<longleftrightarrow> strict_conjunction E sc d log"
proof -
  obtain r log' where mf: "module_function_points E sc (get_or_None d ''module_and_function'') log = (r, log')"
    by (cases "module_function_points E sc (get_or_None d ''module_and_function'') log")
  show ?thesis
  proof (cases r)
    case (Inl e)
    then have "\<not> registered E sc (get_or_None d ''module_and_function'') log"
      using mf module_function_points_3 [of E sc "get_or_None d ''module_and_function''" log] by simp
    then show ?thesis using mf Inl by (simp add: is_valid_test_dict strict_conjunction_def)
  next
    case (Inr p)
    have p3: "p \<le> 3" using mf Inr by (auto dest: module_function_points_le)
    have reg: "p = 3 \<longleftrightarrow> registered E sc (get_or_None d ''module_and_function'') log"
      using mf Inr module_function_points_3 [of E sc "get_or_None d ''module_and_function''" log] by simp
    have a2: "assertion_points sc (get_or_None d ''assertion'') \<le> 2" by (rule assertion_points_le)
    have rec: "assertion_points sc (get_or_None d ''assertion'') = 2 \<longleftrightarrow> recognized sc (get_or_None d ''assertion'')"
      by (rule assertion_points_2)
    show ?thesis using mf Inr p3 reg a2 rec
      by (auto simp: is_valid_test_dict strict_conjunction_def)
  qed
qed

lemma is_valid_test_registered:
  assumes "registered E sc (get_or_None d ''module_and_function'') log"
  shows "fst (is_valid_test E sc (PDict d) log) =
           Inr (recognized sc (get_or_None d ''assertion'') \<and> py_truthy (get_or_None d ''expected-return''))"
proof -
  obtain r log' where mf: "module_function_points E sc (get_or_None d ''module_and_function'') log = (r, log')"
    by (cases "module_function_points E sc (get_or_None d ''module_and_function'') log")
  have "r = Inr 3" using assms mf module_function_points_3 [of E sc "get_or_None d ''module_and_function''" log] by simp
  moreover have a2: "assertion_points sc (get_or_None d ''assertion'') \<le> 2" by (rule assertion_points_le)
  moreover have rec: "assertion_points sc (get_or_None d ''assertion'') = 2 \<longleftrightarrow> recognized sc (get_or_None d ''assertion'')"
      by (rule assertion_points_2)
  ultimately show ?thesis using mf
    by (auto simp: is_valid_test_dict)
qed


subsection \<open>The example minion\<close>

lemma example_check_eq:
  "example_check =
     \<lparr> opts = [(KStr ''cachedir'', PStr ''/c''), (KStr ''environment'', PNone)],
       assertions_list =
         [''assertEqual'', ''assertNotEqual'', ''assertTrue'', ''assertFalse'',
          ''assertIn'', ''assertGreater'', ''assertGreaterEqual'',
          ''assertLess'', ''assertLessEqual''],
       modules = PList [PStr ''test''] \<rparr>"
  by (simp add: example_check_def SaltCheck_init_def populate_salt_modules_list_def
        call_salt_command_def example_env_def example_function_def)

lemma example_registered: "registered example_env example_check (PStr ''test.echo'') log"
  by (simp add: registered_def example_check_eq call_salt_command_def example_env_def
        example_function_def)

lemma example_recognized: "recognized example_check (PStr ''assertEqual'')"
  by (simp add: recognized_def example_check_eq)

subsection \<open>Validation as a conjunction\<close>

text \<open>
  C3.  On the example minion \<^verbatim>\<open>test.echo\<close> is registered, \<^verbatim>\<open>assertEqual\<close> is recognized
  and the expected return value \<open>False\<close> is present; every condition of the conjunction
  holds, and the declaration does not pass.  The sixth point is given by
  \<^verbatim>\<open>if expected_return:\<close>, which asks for a true value where the conjunction asks for a
  present one.
\<close>

theorem falsy_expected_return_fails:
  "registered example_env example_check (PStr ''test.echo'') []
   \<and> recognized example_check (PStr ''assertEqual'')
   \<and> fst (is_valid_test example_env example_check
          (echo_test (PStr ''test.echo'') (PStr ''assertEqual'') (PBool False)) []) = Inr False"
  using is_valid_test_registered [of example_env example_check
          "[(KStr ''module_and_function'', PStr ''test.echo''),
            (KStr ''args'', PList [PStr ''This works!'']),
            (KStr ''assertion'', PStr ''assertEqual''),
            (KStr ''expected-return'', PBool False)]" "[]"]
  by (simp add: example_registered example_recognized echo_test_def get_or_None_def)

text \<open>
  What the score computes.  It reaches six exactly when every check of the code succeeds:
  the target operation names a registered module and a registered function of it, the
  assertion is a recognized name, and the expected return value is true in a condition.
  So the additive score is a strict conjunction, and a declaration whose assertion is not
  recognized and whose other fields are valid gets \<open>False\<close>; only the last conjunct is
  not the presence of the value.
\<close>

theorem validation_is_strict_conjunction:
  "(fst (is_valid_test E sc (PDict d) log) = Inr True \<longleftrightarrow> strict_conjunction E sc d log)
   \<and> (registered E sc (get_or_None d ''module_and_function'') log
       \<and> py_truthy (get_or_None d ''expected-return'')
       \<and> \<not> recognized sc (get_or_None d ''assertion'')
       \<longrightarrow> fst (is_valid_test E sc (PDict d) log) = Inr False)"
  using is_valid_test_True_iff [of E sc d log] is_valid_test_registered [of E sc d log]
  by auto

text \<open>
  On the example minion: \<^verbatim>\<open>assertAlmostEqual\<close> is not recognized and the declaration
  fails; with \<^verbatim>\<open>assertEqual\<close> it passes.
\<close>

theorem validation_is_strict_conjunction_witness:
  "registered example_env example_check (PStr ''test.echo'') []
   \<and> py_truthy (PStr ''This works!'')
   \<and> \<not> recognized example_check (PStr ''assertAlmostEqual'')
   \<and> fst (is_valid_test example_env example_check
          (echo_test (PStr ''test.echo'') (PStr ''assertAlmostEqual'') (PStr ''This works!'')) [])
       = Inr False
   \<and> fst (is_valid_test example_env example_check
          (echo_test (PStr ''test.echo'') (PStr ''assertEqual'') (PStr ''This works!'')) [])
       = Inr True"
  using validation_is_strict_conjunction [of example_env example_check
          "[(KStr ''module_and_function'', PStr ''test.echo''),
            (KStr ''args'', PList [PStr ''This works!'']),
            (KStr ''assertion'', PStr ''assertAlmostEqual''),
            (KStr ''expected-return'', PStr ''This works!'')]" "[]"]
        validation_is_strict_conjunction [of example_env example_check
          "[(KStr ''module_and_function'', PStr ''test.echo''),
            (KStr ''args'', PList [PStr ''This works!'']),
            (KStr ''assertion'', PStr ''assertEqual''),
            (KStr ''expected-return'', PStr ''This works!'')]" "[]"]
  by (simp add: example_registered example_recognized echo_test_def get_or_None_def
        strict_conjunction_def)
     (simp add: recognized_def example_check_eq)

text \<open>
  Where the expected return value is absent, null or true in a condition, being present
  and being true are the same, and the score is the conjunction with presence as its
  last condition.
\<close>

lemma validation_conjunction_with_presence:
  assumes "get_or_None d ''expected-return'' = PNone
           \<or> py_truthy (get_or_None d ''expected-return'')"
  shows "fst (is_valid_test E sc (PDict d) log) = Inr True \<longleftrightarrow>
           registered E sc (get_or_None d ''module_and_function'') log
           \<and> recognized sc (get_or_None d ''assertion'')
           \<and> get_or_None d ''expected-return'' \<noteq> PNone"
  using assms is_valid_test_True_iff [of E sc d log]
  by (auto simp: strict_conjunction_def)

subsection \<open>The expected return value\<close>

text \<open>
  C5.  With the expected return value 0, or the empty string, and every other condition
  met, the declaration does not pass, although the value is present and not null.
\<close>

theorem zero_expected_return_fails:
  "fst (is_valid_test example_env example_check
          (echo_test (PStr ''test.echo'') (PStr ''assertEqual'') (PInt 0)) []) = Inr False
   \<and> fst (is_valid_test example_env example_check
          (echo_test (PStr ''test.echo'') (PStr ''assertEqual'') (PStr '''')) []) = Inr False"
  using is_valid_test_registered [of example_env example_check
          "[(KStr ''module_and_function'', PStr ''test.echo''),
            (KStr ''args'', PList [PStr ''This works!'']),
            (KStr ''assertion'', PStr ''assertEqual''),
            (KStr ''expected-return'', PInt 0)]" "[]"]
    is_valid_test_registered [of example_env example_check
          "[(KStr ''module_and_function'', PStr ''test.echo''),
            (KStr ''args'', PList [PStr ''This works!'']),
            (KStr ''assertion'', PStr ''assertEqual''),
            (KStr ''expected-return'', PStr '''')]" "[]"]
  by (simp add: example_registered example_recognized echo_test_def get_or_None_def)

text \<open>
  In general: with a registered target operation and a recognized assertion, the result of
  the validation is the truth value of the expected return value, which is \<open>False\<close> for
  \<open>None\<close> and for an absent value, but also for \<open>False\<close>, 0 and everything empty.
\<close>

theorem expected_return_must_be_truthy:
  assumes "registered E sc (get_or_None d ''module_and_function'') log"
    and "recognized sc (get_or_None d ''assertion'')"
  shows "fst (is_valid_test E sc (PDict d) log) = Inr (py_truthy (get_or_None d ''expected-return''))"
  using is_valid_test_registered [OF assms(1)] assms(2) by simp

text \<open>The declaration of the end-to-end scenario passes.\<close>

theorem expected_return_must_be_truthy_witness:
  "registered example_env example_check (PStr ''test.echo'') []
   \<and> recognized example_check (PStr ''assertEqual'')
   \<and> fst (is_valid_test example_env example_check
          (echo_test (PStr ''test.echo'') (PStr ''assertEqual'') (PStr ''This works!'')) [])
       = Inr True"
  using expected_return_must_be_truthy [of example_env example_check
          "[(KStr ''module_and_function'', PStr ''test.echo''),
            (KStr ''args'', PList [PStr ''This works!'']),
            (KStr ''assertion'', PStr ''assertEqual''),
            (KStr ''expected-return'', PStr ''This works!'')]" "[]"]
  by (simp add: example_registered example_recognized echo_test_def get_or_None_def)

subsection \<open>A target operation that does not split in two\<close>

text \<open>
  C4.  \<^verbatim>\<open>module, function = m_and_f.split('.')\<close> raises \<^verbatim>\<open>ValueError\<close> when the target
  operation has no dot or more than one: \<^verbatim>\<open>is_valid_test\<close> and \<^verbatim>\<open>run_test\<close> raise instead
  of reporting an invalid test.
\<close>

theorem malformed_target_raises:
  "is_valid_test example_env example_check
     (echo_test (PStr ''echo'') (PStr ''assertEqual'') (PStr ''This works!'')) []
     = (Inl ValueError, [])
   \<and> run_test example_env example_check
     (echo_test (PStr ''echo'') (PStr ''assertEqual'') (PStr ''This works!'')) []
     = (Inl ValueError, [])
   \<and> run_test example_env example_check
     (echo_test (PStr ''test.echo.x'') (PStr ''assertEqual'') (PStr ''This works!'')) []
     = (Inl ValueError, [])"
  by (simp add: run_test_def is_valid_test_def py_get_def get_or_None_def echo_test_def
        module_function_points_def split_module_function_def)

subsection \<open>The assertion assertNotIn\<close>

text \<open>
  C2.  \<^verbatim>\<open>run_test\<close> has a branch that sends \<^verbatim>\<open>assertNotIn\<close> to \<^verbatim>\<open>assert_not_in\<close>, but the
  name is missing from \<^verbatim>\<open>assertions_list\<close>: on every object built by \<^verbatim>\<open>SaltCheck()\<close> it
  earns one of the two points of the assertion, and on the example minion a declaration
  that is valid in every other respect is reported as an invalid test.
\<close>

theorem assert_not_in_is_rejected:
  "dispatch E (PStr ''assertNotIn'') expected returned = assert_not_in expected returned
   \<and> assertion_points (fst (SaltCheck_init E opts_arg log)) (PStr ''assertNotIn'') = 1
   \<and> run_test example_env example_check
       (echo_test (PStr ''test.echo'') (PStr ''assertNotIn'') (PStr ''Something else'')) []
       = (Inr (PStr ''False: Invalid test''),
          [(PStr ''sys.list_functions'', Some (PList [PStr ''test'']), None)])"
proof (intro conjI)
  show "dispatch E (PStr ''assertNotIn'') expected returned = assert_not_in expected returned"
    by (simp add: dispatch_def)
  show "assertion_points (fst (SaltCheck_init E opts_arg log)) (PStr ''assertNotIn'') = 1"
    by (simp add: assertion_points_def SaltCheck_init_def split: prod.splits)
  show "run_test example_env example_check
       (echo_test (PStr ''test.echo'') (PStr ''assertNotIn'') (PStr ''Something else'')) []
       = (Inr (PStr ''False: Invalid test''),
          [(PStr ''sys.list_functions'', Some (PList [PStr ''test'']), None)])"
    by (simp add: run_test_def is_valid_test_def py_get_def get_or_None_def echo_test_def
        module_function_points_def split_module_function_def is_valid_module_def
        is_valid_function_def call_salt_command_def example_check_eq assertion_points_def
        example_env_def example_function_def)
qed

subsection \<open>Invalid declarations are not run\<close>








subsection \<open>Merging the test files\<close>

lemma key_eq_left: "key_eq a b \<Longrightarrow> key_eq a c = key_eq b c"
  using key_eq_sym key_eq_trans by blast

lemma key_eq_right: "key_eq a b \<Longrightarrow> key_eq c a = key_eq c b"
  using key_eq_sym key_eq_trans by blast

lemma dict_get_cong: "key_eq k k' \<Longrightarrow> dict_get d k = dict_get d k'"
  by (induction d) (auto simp: key_eq_right)

lemma dict_get_dict_set:
  "dict_get (dict_set d k v) k' = (if key_eq k k' then Some v else dict_get d k')"
proof (induction d)
  case Nil
  then show ?case by simp
next
  case (Cons kv d)
  obtain k0 v0 where kv: "kv = (k0, v0)" by (cases kv)
  show ?case
  proof (cases "key_eq k0 k")
    case True
    then show ?thesis using kv by (simp add: key_eq_left)
  next
    case False
    then have "key_eq k k' \<Longrightarrow> \<not> key_eq k0 k'"
      using key_eq_sym key_eq_trans by blast
    then show ?thesis using kv False Cons.IH by auto
  qed
qed

lemma dict_get_store_items:
  "distinct_keys items \<Longrightarrow>
   dict_get (store_items d items) k =
     (case dict_get items k of Some v \<Rightarrow> Some v | None \<Rightarrow> dict_get d k)"
proof (induction items arbitrary: d)
  case Nil
  then show ?case by simp
next
  case (Cons kv items)
  obtain k1 v1 where kv: "kv = (k1, v1)" by (cases kv)
  from Cons.prems kv have none: "dict_get items k1 = None" and dk: "distinct_keys items"
    by auto
  show ?case
  proof (cases "key_eq k1 k")
    case True
    then have "dict_get items k = None" using none dict_get_cong by metis
    then show ?thesis using kv True Cons.IH [OF dk] by (simp add: dict_get_dict_set)
  next
    case False
    then show ?thesis using kv Cons.IH [OF dk]
      by (simp add: dict_get_dict_set split: option.splits)
  qed
qed

lemma load_files_last_definition:
  assumes "\<forall>f \<in> set files. \<exists>items. yaml_load_file E f = Inr (PDict items) \<and> distinct_keys items"
  shows "\<exists>stl'. load_files E stl files = Inr stl'
           \<and> (\<forall>name. dict_get (test_dict stl') name =
                 (case last_definition E files name of
                    Some body \<Rightarrow> Some body
                  | None \<Rightarrow> dict_get (test_dict stl) name))"
  using assms
proof (induction files arbitrary: stl)
  case Nil
  then show ?case by simp
next
  case (Cons f fs)
  then obtain items where f: "yaml_load_file E f = Inr (PDict items)" and dk: "distinct_keys items"
    by auto
  define stl1 where "stl1 = stl\<lparr> test_dict := store_items (test_dict stl) items \<rparr>"
  have lf: "load_file E stl f = Inr stl1" using f by (simp add: load_file_def stl1_def)
  from Cons.prems have "\<forall>f \<in> set fs. \<exists>items. yaml_load_file E f = Inr (PDict items) \<and> distinct_keys items"
    by simp
  from Cons.IH [OF this, of stl1] obtain stl' where
    l: "load_files E stl1 fs = Inr stl'"
    and g: "\<And>name. dict_get (test_dict stl') name =
                 (case last_definition E fs name of
                    Some body \<Rightarrow> Some body
                  | None \<Rightarrow> dict_get (test_dict stl1) name)"
    by blast
  have "dict_get (test_dict stl') name =
          (case last_definition E (f # fs) name of
             Some body \<Rightarrow> Some body
           | None \<Rightarrow> dict_get (test_dict stl) name)" for name
    using g [of name] f dict_get_store_items [OF dk, of "test_dict stl" name]
    by (simp add: stl1_def split: option.splits)
  then show ?case using lf l by simp
qed

text \<open>
  C9.  When every test file parses to a mapping, \<^verbatim>\<open>load_test_suite\<close> on a fresh loader
  returns, and the merged collection holds for every test name the body from the last file,
  in discovery order, that defines the name; a name that no file defines is absent.  No
  error is raised for a name that occurs in several files.
\<close>

theorem merge_last_write_wins:
  assumes "\<forall>f \<in> set (test_files stl).
             \<exists>items. yaml_load_file E f = Inr (PDict items) \<and> distinct_keys items"
    and "test_dict stl = []"
  shows "\<exists>stl'. load_test_suite E stl = Inr stl'
           \<and> (\<forall>name. dict_get (test_dict stl') name = last_definition E (test_files stl) name)"
proof -
  from load_files_last_definition [OF assms(1), of stl] obtain stl' where
    "load_files E stl (test_files stl) = Inr stl'"
    and "\<And>name. dict_get (test_dict stl') name =
                 (case last_definition E (test_files stl) name of
                    Some body \<Rightarrow> Some body
                  | None \<Rightarrow> dict_get (test_dict stl) name)"
    by blast
  then show ?thesis using assms(2) by (auto simp: load_test_suite_def split: option.splits)
qed

text \<open>
  Both example files define \<^verbatim>\<open>dup\<close>; the body of the second file is the one that stays.
\<close>

theorem merge_last_write_wins_witness:
  "\<exists>stl'. load_test_suite example_env example_loader = Inr stl'
     \<and> dict_get (test_dict stl') (KStr ''dup'')
         = Some (echo_test (PStr ''test.echo'') (PStr ''assertEqual'') (PStr ''This works!''))
     \<and> dict_get (test_dict stl') (KStr ''ping'')
         = Some (echo_test (PStr ''test.ping'') (PStr ''assertTrue'') (PStr ''True''))"
proof -
  have files: "\<forall>f \<in> set (test_files example_loader).
             \<exists>items. yaml_load_file example_env f = Inr (PDict items) \<and> distinct_keys items"
    by (simp add: example_loader_def example_env_def example_yaml_def)
  have empty: "test_dict example_loader = []"
    by (simp add: example_loader_def)
  from merge_last_write_wins [OF files empty] obtain stl' where
    l: "load_test_suite example_env example_loader = Inr stl'"
    and g: "\<And>name. dict_get (test_dict stl') name
              = last_definition example_env (test_files example_loader) name"
    by blast
  have "dict_get (test_dict stl') (KStr ''dup'')
         = Some (echo_test (PStr ''test.echo'') (PStr ''assertEqual'') (PStr ''This works!''))"
    by (simp add: g example_loader_def example_env_def example_yaml_def)
  moreover have "dict_get (test_dict stl') (KStr ''ping'')
         = Some (echo_test (PStr ''test.ping'') (PStr ''assertTrue'') (PStr ''True''))"
    by (simp add: g example_loader_def example_env_def example_yaml_def)
  ultimately show ?thesis using l by blast
qed


subsection \<open>The tests of one state\<close>




subsection \<open>The evaluators on the cases of the test file\<close>

text \<open>Each assertion name reaches the evaluator of the same name.\<close>

lemma dispatch_matches:
  "dispatch E (PStr ''assertEqual'') x y = assert_equal x y"
  "dispatch E (PStr ''assertNotEqual'') x y = assert_not_equal x y"
  "dispatch E (PStr ''assertTrue'') x y = assert_true x"
  "dispatch E (PStr ''assertFalse'') x y = assert_false E x"
  "dispatch E (PStr ''assertIn'') x y = assert_in x y"
  "dispatch E (PStr ''assertNotIn'') x y = assert_not_in x y"
  "dispatch E (PStr ''assertGreater'') x y = assert_greater x y"
  "dispatch E (PStr ''assertGreaterEqual'') x y = assert_greater_equal x y"
  "dispatch E (PStr ''assertLess'') x y = assert_less x y"
  "dispatch E (PStr ''assertLessEqual'') x y = assert_less_equal x y"
  by (simp_all add: dispatch_def)

text \<open>The cases of \<^verbatim>\<open>salt_check_test.py\<close>, with the strings the evaluators give on failure.\<close>

lemma old_test_cases:
  "assert_equal (PBool True) (PBool True) = Inr (PBool True)"
  "assert_equal (PBool True) (PBool False) = Inr (PStr ''False: True is not equal to False'')"
  "assert_not_equal (PBool True) (PBool False) = Inr (PBool True)"
  "assert_not_equal (PBool True) (PBool True) = Inr (PStr ''False: True is equal to True'')"
  "assert_true (PBool True) = Inr (PBool True)"
  "assert_true PNone = Inr (PStr ''False: None not True'')"
  "assert_false E (PBool False) = Inr (PBool True)"
  "assert_false E PNone = Inr (PStr ''False: None not False'')"
  "assert_in (PInt 1) (PList [PInt 1, PInt 2, PInt 3]) = Inr (PBool True)"
  "assert_in (PStr ''a'') (PStr ''abcde'') = Inr (PBool True)"
  "assert_in (PStr ''f'') (PStr ''abcde'') = Inr (PStr ''False: abcde not False'')"
  "assert_not_in (PInt 0) (PList [PInt 1, PInt 2, PInt 3, PInt 4]) = Inr (PBool True)"
  "assert_not_in (PStr ''a'') (PStr ''abcde'') = Inr (PStr ''False: abcde not False'')"
  "assert_greater (PInt 100) (PInt 1) = Inr (PBool True)"
  "assert_greater (PInt 100) (PInt (- 1)) = Inr (PBool True)"
  "assert_greater (PInt (- 1)) (PInt 0) = Inr (PStr ''False: 0 not False'')"
  "assert_greater (PInt 0) (PInt 0) = Inr (PStr ''False: 0 not False'')"
  "assert_greater_equal (PInt 0) (PInt 0) = Inr (PBool True)"
  "assert_greater_equal (PInt (- 1)) (PInt 0) = Inr (PStr ''False: 0 not False'')"
  "assert_less (PInt (- 1)) (PInt 0) = Inr (PBool True)"
  "assert_less (PInt 0) (PInt 0) = Inr (PStr ''False: 0 not False'')"
  "assert_less (PInt 100) (PInt 0) = Inr (PStr ''False: 0 not False'')"
  by (simp_all add: assert_equal_def assert_not_equal_def assert_true_def assert_false_def
        assert_in_def assert_not_in_def assert_greater_def assert_greater_equal_def
        assert_less_def assert_less_equal_def assert_cmp_def failure_def show_int_def
        py_ne_def)


end
